theory Spec2Isabelle
  imports Main
begin

section \<open>Python values, names and errors\<close>

text \<open>
  The exceptions the modelled code can end in. \<open>NameError\<close> carries the name that could
  not be resolved; \<open>CancelledError\<close> is what an awaited call raises when the task is
  cancelled (a client that disconnects); \<open>ExternalError\<close> stands for an exception raised
  inside an awaited external call.
\<close>

datatype py_error =
    NameError string
  | TypeError string
  | KeyError string
  | CancelledError
  | ExternalError string

text \<open>
  What a global name of \<open>binary_sensor.py\<close> can be bound to, as far as the push-event hook
  looks at it: the host's delayed-call primitive, a number of seconds, or any other object
  (named by the module it comes from).
\<close>

datatype py_obj =
    AsyncCallLater
  | Seconds nat
  | Imported string

type_synonym namespace = "string \<Rightarrow> py_obj option"

text \<open>
  The global namespace that \<open>binary_sensor.py\<close> builds: the names bound by its import
  statements (lines 2 to 20), by its two module-level assignments and by its function and
  class definitions. Nothing else is bound at module level.
\<close>

definition binary_sensor_globals :: namespace where
  "binary_sensor_globals = map_of
     [(''annotations'', Imported ''__future__''),
      (''DeviceTypes'', Imported ''simplipy.device''),
      (''Camera'', Imported ''simplipy.device.camera''),
      (''CameraTypes'', Imported ''simplipy.device.camera''),
      (''SensorV3'', Imported ''simplipy.device.sensor.v3''),
      (''SystemV3'', Imported ''simplipy.system.v3''),
      (''EVENT_DOORBELL_DETECTED'', Imported ''simplipy.websocket''),
      (''EVENT_CAMERA_MOTION_DETECTED'', Imported ''simplipy.websocket''),
      (''BinarySensorDeviceClass'', Imported ''homeassistant.components.binary_sensor''),
      (''BinarySensorEntity'', Imported ''homeassistant.components.binary_sensor''),
      (''ConfigEntry'', Imported ''homeassistant.config_entries''),
      (''HomeAssistant'', Imported ''homeassistant.core''),
      (''callback'', Imported ''homeassistant.core''),
      (''EntityCategory'', Imported ''homeassistant.helpers.entity''),
      (''AddEntitiesCallback'', Imported ''homeassistant.helpers.entity_platform''),
      (''SimpliSafe'', Imported ''homeassistant.components.simplisafe''),
      (''SimpliSafeEntity'', Imported ''homeassistant.components.simplisafe''),
      (''DOMAIN'', Imported ''homeassistant.components.simplisafe.const''),
      (''LOGGER'', Imported ''homeassistant.components.simplisafe.const''),
      (''SUPPORTED_BATTERY_SENSOR_TYPES'', Imported ''binary_sensor''),
      (''TRIGGERED_SENSOR_TYPES'', Imported ''binary_sensor''),
      (''async_setup_entry'', Imported ''binary_sensor''),
      (''TriggeredBinarySensor'', Imported ''binary_sensor''),
      (''BatteryBinarySensor'', Imported ''binary_sensor''),
      (''CameraDoorbellBinarySensor'', Imported ''binary_sensor''),
      (''CameraMotionBinarySensor'', Imported ''binary_sensor'')]"

text \<open>
  The names of Python's builtin functions and constants, where a name that is not global is
  looked up last. (The builtin exception classes are left out: their names end in
  \<open>Error\<close>, \<open>Exception\<close>, \<open>Warning\<close>, \<open>Exit\<close>, \<open>Interrupt\<close> or \<open>Iteration\<close>.)
\<close>

definition python_builtins :: "string list" where
  "python_builtins =
     [''abs'', ''aiter'', ''all'', ''anext'', ''any'', ''ascii'', ''bin'', ''bool'',
      ''breakpoint'', ''bytearray'', ''bytes'', ''callable'', ''chr'', ''classmethod'',
      ''compile'', ''complex'', ''delattr'', ''dict'', ''dir'', ''divmod'', ''enumerate'',
      ''eval'', ''exec'', ''filter'', ''float'', ''format'', ''frozenset'', ''getattr'',
      ''globals'', ''hasattr'', ''hash'', ''help'', ''hex'', ''id'', ''input'', ''int'',
      ''isinstance'', ''issubclass'', ''iter'', ''len'', ''list'', ''locals'', ''map'',
      ''max'', ''memoryview'', ''min'', ''next'', ''object'', ''oct'', ''open'', ''ord'',
      ''pow'', ''print'', ''property'', ''range'', ''repr'', ''reversed'', ''round'', ''set'',
      ''setattr'', ''slice'', ''sorted'', ''staticmethod'', ''str'', ''sum'', ''super'',
      ''tuple'', ''type'', ''vars'', ''zip'', ''__import__'', ''__build_class__'',
      ''__debug__'', ''__doc__'', ''__loader__'', ''__name__'', ''__package__'',
      ''__spec__'', ''True'', ''False'', ''None'', ''Ellipsis'', ''NotImplemented'',
      ''copyright'', ''credits'', ''license'', ''exit'', ''quit'']"

text \<open>
  Loading a name that is not local to the function: the module's globals first, then the
  builtins, else \<open>NameError\<close>.
\<close>

definition load_global :: "namespace \<Rightarrow> string \<Rightarrow> py_error + py_obj" where
  "load_global ns name =
     (case ns name of
        Some v \<Rightarrow> Inr v
      | None \<Rightarrow>
          if name \<in> set python_builtins then Inr (Imported ''builtins'')
          else Inl (NameError name))"

section \<open>The transient camera sensors of \<open>binary_sensor.py\<close>\<close>

type_synonym websocket_event = string

text \<open>
  The closure \<open>clear_delay_listener\<close> that each call of the push-event hook creates; it
  closes over \<open>self\<close> only, so every closure of one entity is the same callback.
\<close>

datatype callback = ClearDelayListener

text \<open>
  One camera sensor entity and the part of the host it touches: its \<open>_attr_is_on\<close>
  flag, the host's pending delayed calls (due time and callback, oldest first), the host's
  clock, the states written to the host by \<open>async_write_ha_state\<close> (oldest first) and what
  \<open>LOGGER.critical\<close> received.
\<close>

record world =
  attr_is_on :: bool
  timers :: "(nat \<times> callback) list"
  now :: nat
  written_states :: "bool list"
  critical_log :: "websocket_event list"

text \<open>
  Both classes set \<open>_attr_is_on = False\<close> as a class attribute and their \<open>__init__\<close>
  does not touch it: an entity starts inactive, with nothing scheduled or written.
\<close>

definition init_world :: "nat \<Rightarrow> world" where
  "init_world t =
     \<lparr>attr_is_on = False, timers = [], now = t, written_states = [], critical_log = []\<rparr>"

text \<open>
  Modelled from the spec: the host's \<open>async_write_ha_state\<close> (the State Publisher, which
  notifies the host platform that the entity's observable state changed); it is a method of
  the host's entity base class, which is not among the sources. The model records the state
  that is published.
\<close>

definition async_write_ha_state :: "world \<Rightarrow> world" where
  "async_write_ha_state w = w\<lparr>written_states := written_states w @ [attr_is_on w]\<rparr>"

text \<open>
  Modelled from the spec: the host's delayed-callback scheduling primitive
  \<open>async_call_later\<close> (the Deferred Clear Scheduler arranges for the callback to run after a
  fixed delay); it lives in the host's helpers, which are not among the sources. The call is
  queued with its due time; nothing already queued is touched.
\<close>

definition async_call_later :: "nat \<Rightarrow> callback \<Rightarrow> world \<Rightarrow> world" where
  "async_call_later delay action w = w\<lparr>timers := timers w @ [(now w + delay, action)]\<rparr>"

text \<open>
  Calling the object that the name \<open>async_call_later\<close> resolved to, with
  \<open>(self.hass, delay, action)\<close>. Only the host's primitive with a number of seconds
  schedules anything; an object that is not that primitive, or a delay that is not a number,
  ends in \<open>TypeError\<close> with nothing scheduled.
\<close>

definition call_obj :: "py_obj \<Rightarrow> py_obj \<Rightarrow> callback \<Rightarrow> world \<Rightarrow> (py_error + unit) \<times> world" where
  "call_obj f delay action w =
     (case f of
        AsyncCallLater \<Rightarrow>
          (case delay of
             Seconds d \<Rightarrow> (Inr (), async_call_later d action w)
           | _ \<Rightarrow> (Inl (TypeError ''delay''), w))
      | _ \<Rightarrow> (Inl (TypeError ''not callable''), w))"

text \<open>
  \<open>clear_delay_listener(now)\<close> (lines 160 to 163 and 206 to 209): clear the flag, then
  write the state to the host.
\<close>

definition clear_delay_listener :: "world \<Rightarrow> world" where
  "clear_delay_listener w = async_write_ha_state (w\<lparr>attr_is_on := False\<rparr>)"

fun run_callback :: "callback \<Rightarrow> world \<Rightarrow> world" where
  "run_callback ClearDelayListener w = clear_delay_listener w"

text \<open>
  \<open>CameraDoorbellBinarySensor.async_update_from_websocket_event\<close> (lines 153 to 167):
  log the event, set the flag, define the closure, then evaluate the call: the callee name
  first, then the arguments from left to right (\<open>self.hass\<close> is an attribute of the
  entity), then the call itself. An exception leaves the effects made before it in place.
\<close>

definition CameraDoorbellBinarySensor_async_update_from_websocket_event ::
  "namespace \<Rightarrow> websocket_event \<Rightarrow> world \<Rightarrow> (py_error + unit) \<times> world" where
  "CameraDoorbellBinarySensor_async_update_from_websocket_event ns event w =
     (let w1 = w\<lparr>critical_log := critical_log w @ [event]\<rparr>;
          w2 = w1\<lparr>attr_is_on := True\<rparr>
      in case load_global ns ''async_call_later'' of
           Inl e \<Rightarrow> (Inl e, w2)
         | Inr f \<Rightarrow>
             (case load_global ns ''MOTION_SENSOR_TRIGGER_CLEAR'' of
                Inl e \<Rightarrow> (Inl e, w2)
              | Inr delay \<Rightarrow> call_obj f delay ClearDelayListener w2))"

text \<open>
  \<open>CameraMotionBinarySensor.async_update_from_websocket_event\<close> (lines 199 to 213): the
  same statements.
\<close>

definition CameraMotionBinarySensor_async_update_from_websocket_event ::
  "namespace \<Rightarrow> websocket_event \<Rightarrow> world \<Rightarrow> (py_error + unit) \<times> world" where
  "CameraMotionBinarySensor_async_update_from_websocket_event ns event w =
     (let w1 = w\<lparr>critical_log := critical_log w @ [event]\<rparr>;
          w2 = w1\<lparr>attr_is_on := True\<rparr>
      in case load_global ns ''async_call_later'' of
           Inl e \<Rightarrow> (Inl e, w2)
         | Inr f \<Rightarrow>
             (case load_global ns ''MOTION_SENSOR_TRIGGER_CLEAR'' of
                Inl e \<Rightarrow> (Inl e, w2)
              | Inr delay \<Rightarrow> call_obj f delay ClearDelayListener w2))"

text \<open>
  \<open>async_update_from_rest_api\<close> of both camera sensor classes (lines 148 to 151 and 194
  to 197): a bare \<open>return\<close>.
\<close>

definition CameraDoorbellBinarySensor_async_update_from_rest_api :: "world \<Rightarrow> world" where
  "CameraDoorbellBinarySensor_async_update_from_rest_api w = w"

definition CameraMotionBinarySensor_async_update_from_rest_api :: "world \<Rightarrow> world" where
  "CameraMotionBinarySensor_async_update_from_rest_api w = w"

datatype camera_sensor = Doorbell | Motion

fun async_update_from_websocket_event ::
  "camera_sensor \<Rightarrow> namespace \<Rightarrow> websocket_event \<Rightarrow> world \<Rightarrow> (py_error + unit) \<times> world" where
  "async_update_from_websocket_event Doorbell =
     CameraDoorbellBinarySensor_async_update_from_websocket_event"
| "async_update_from_websocket_event Motion =
     CameraMotionBinarySensor_async_update_from_websocket_event"

fun async_update_from_rest_api :: "camera_sensor \<Rightarrow> world \<Rightarrow> world" where
  "async_update_from_rest_api Doorbell = CameraDoorbellBinarySensor_async_update_from_rest_api"
| "async_update_from_rest_api Motion = CameraMotionBinarySensor_async_update_from_rest_api"

text \<open>
  What can happen to one camera sensor entity: the host delivers a push event to the hook,
  the host calls the REST hook, the host's clock advances, or the host runs the pending
  delayed call at a position of its queue.
\<close>

datatype loop_op = PushEvent websocket_event | RestRefresh | Tick | Fire nat

text \<open>
  Modelled from the spec: the host's event loop, which is not among the sources. It runs a
  delayed call once, and no earlier than its due time; an exception that leaves a hook is
  caught by the host, and the entity keeps the state the hook left.
\<close>

fun step :: "camera_sensor \<Rightarrow> namespace \<Rightarrow> loop_op \<Rightarrow> world \<Rightarrow> world" where
  "step c ns (PushEvent e) w = snd (async_update_from_websocket_event c ns e w)"
| "step c ns RestRefresh w = async_update_from_rest_api c w"
| "step c ns Tick w = w\<lparr>now := now w + 1\<rparr>"
| "step c ns (Fire i) w =
     (if i < length (timers w) \<and> fst (timers w ! i) \<le> now w
      then run_callback (snd (timers w ! i))
             (w\<lparr>timers := take i (timers w) @ drop (Suc i) (timers w)\<rparr>)
      else w)"

fun run :: "camera_sensor \<Rightarrow> namespace \<Rightarrow> loop_op list \<Rightarrow> world \<Rightarrow> world" where
  "run c ns [] w = w"
| "run c ns (x # xs) w = run c ns xs (step c ns x w)"

text \<open>The delay that a namespace gives the clear, when it binds one.\<close>

definition clear_delay :: "namespace \<Rightarrow> nat option" where
  "clear_delay ns =
     (case ns ''MOTION_SENSOR_TRIGGER_CLEAR'' of Some (Seconds d) \<Rightarrow> Some d | _ \<Rightarrow> None)"

text \<open>
  The namespace that the hook's call presupposes: the module's globals with the two names it
  uses bound to the host's primitive and to a delay of \<open>d\<close> seconds. The module as written
  does not build it; it is used below to show what the hook's statements do once they run
  to the end.
\<close>

definition intended_globals :: "nat \<Rightarrow> namespace" where
  "intended_globals d =
     binary_sensor_globals
       (''async_call_later'' \<mapsto> AsyncCallLater, ''MOTION_SENSOR_TRIGGER_CLEAR'' \<mapsto> Seconds d)"

text \<open>The delay with which a push event schedules a clear, when it schedules one.\<close>

definition scheduled_delay :: "namespace \<Rightarrow> nat option" where
  "scheduled_delay ns =
     (if load_global ns ''async_call_later'' = Inr AsyncCallLater then clear_delay ns else None)"

text \<open>
  The invariant behind the lower bound: time has not run backwards since \<open>t0\<close>, no pending
  clear is due before \<open>T\<close>, and the flag is set as long as \<open>T\<close> has not come.
\<close>

definition holds_until :: "nat \<Rightarrow> nat \<Rightarrow> world \<Rightarrow> bool" where
  "holds_until t0 T w \<longleftrightarrow>
     t0 \<le> now w \<and> list_all (\<lambda>p. T \<le> fst p) (timers w) \<and> (now w < T \<longrightarrow> attr_is_on w)"

text \<open>
  Modelled from the spec: the caller of the push-event hook, a method of the integration's
  entity base class, which is not among the sources. On an event the flag is set, the state
  change is published and the clear is scheduled; the hook is invoked by the framework.
  So the caller runs the hook and then writes the state to the host; an exception that
  leaves the hook leaves the caller too, before the write.
\<close>

definition handle_websocket_update ::
  "camera_sensor \<Rightarrow> namespace \<Rightarrow> websocket_event \<Rightarrow> world \<Rightarrow> (py_error + unit) \<times> world" where
  "handle_websocket_update c ns event w =
     (case async_update_from_websocket_event c ns event w of
        (Inl e, w') \<Rightarrow> (Inl e, w')
      | (Inr u, w') \<Rightarrow> (Inr (), async_write_ha_state w'))"

section \<open>The devices and systems of the vendor library\<close>

text \<open>
  The vendor library's classes are not part of the sources; the records below hold the
  attributes that the two modules read. \<open>SystemStates\<close> is the vendor's enumeration of arm
  states: the modules name its members \<open>off\<close>, \<open>home\<close> and \<open>away\<close>, and every other member
  is \<open>State_other\<close> with its name.
\<close>

datatype SystemStates = State_off | State_home | State_away | State_other string

datatype DeviceTypes =
    DT_CARBON_MONOXIDE | DT_ENTRY | DT_GLASS_BREAK | DT_KEYPAD | DT_LEAK | DT_LOCK_KEYPAD
  | DT_MOTION | DT_SIREN | DT_SMOKE | DT_TEMPERATURE | DT_other string

datatype CameraTypes = DOORBELL | CameraType_other string

datatype BinarySensorDeviceClass =
    DC_GAS | DC_DOOR | DC_SAFETY | DC_MOISTURE | DC_MOTION | DC_SMOKE | DC_BATTERY | DC_OCCUPANCY

record SensorV3 =
  sensor_serial :: string
  sensor_type :: DeviceTypes
  triggered :: bool
  low_battery :: bool

record SimpliCam =
  camera_serial :: string
  camera_type :: CameraTypes
  shutter_open_when_off :: bool
  shutter_open_when_home :: bool
  shutter_open_when_away :: bool
  status :: string
  subscription_enabled :: bool
  video_url :: string

text \<open>
  A system: \<open>sensors\<close> and \<open>cameras\<close> are the values of the vendor's dictionaries, in
  iteration order.
\<close>

record SystemV3 =
  version :: int
  system_id :: int
  state :: SystemStates
  sensors :: "SensorV3 list"
  cameras :: "SimpliCam list"

text \<open>
  The integration's client object: the values of \<open>simplisafe.systems\<close> in iteration order,
  and \<open>simplisafe._api.access_token\<close>.
\<close>

record SimpliSafe =
  systems :: "SystemV3 list"
  access_token :: string

record FFmpegManager =
  binary :: string
  ffmpeg_stream_content_type :: string

text \<open>
  The two entries of \<open>hass.data\<close> that the setup functions subscript: \<open>hass.data[DOMAIN]\<close>
  (a dictionary from config entry ids to clients) and \<open>hass.data[DATA_FFMPEG]\<close>. An entry
  that is absent makes the subscript raise \<open>KeyError\<close>.
\<close>

record hass_data =
  data_domain :: "(string \<Rightarrow> SimpliSafe option) option"
  data_ffmpeg :: "FFmpegManager option"

datatype log_record = Info string int

definition skipped :: "SystemV3 \<Rightarrow> log_record" where
  "skipped sys = Info ''Skipping sensor setup for V2 system: %s'' (system_id sys)"

section \<open>Entity setup in \<open>binary_sensor.py\<close>\<close>

definition SUPPORTED_BATTERY_SENSOR_TYPES :: "DeviceTypes list" where
  "SUPPORTED_BATTERY_SENSOR_TYPES =
     [DT_CARBON_MONOXIDE, DT_ENTRY, DT_GLASS_BREAK, DT_KEYPAD, DT_LEAK, DT_LOCK_KEYPAD,
      DT_MOTION, DT_SIREN, DT_SMOKE, DT_TEMPERATURE]"

definition TRIGGERED_SENSOR_TYPES :: "DeviceTypes \<Rightarrow> BinarySensorDeviceClass option" where
  "TRIGGERED_SENSOR_TYPES = map_of
     [(DT_CARBON_MONOXIDE, DC_GAS),
      (DT_ENTRY, DC_DOOR),
      (DT_GLASS_BREAK, DC_SAFETY),
      (DT_LEAK, DC_MOISTURE),
      (DT_MOTION, DC_MOTION),
      (DT_SIREN, DC_SAFETY),
      (DT_SMOKE, DC_SMOKE)]"

text \<open>The entities the module constructs, with the arguments their constructors get.\<close>

datatype binary_sensor_entity =
    TriggeredBinarySensor SimpliSafe SystemV3 SensorV3 BinarySensorDeviceClass
  | BatteryBinarySensor SimpliSafe SystemV3 SensorV3
  | CameraMotionBinarySensor SimpliSafe SystemV3 SimpliCam
  | CameraDoorbellBinarySensor SimpliSafe SystemV3 SimpliCam

fun entity_system :: "binary_sensor_entity \<Rightarrow> SystemV3" where
  "entity_system (TriggeredBinarySensor ss sys sensor dc) = sys"
| "entity_system (BatteryBinarySensor ss sys sensor) = sys"
| "entity_system (CameraMotionBinarySensor ss sys cam) = sys"
| "entity_system (CameraDoorbellBinarySensor ss sys cam) = sys"

text \<open>The loop over \<open>system.sensors.values()\<close> (lines 59 to 70).\<close>

fun sensor_loop ::
  "SimpliSafe \<Rightarrow> SystemV3 \<Rightarrow> SensorV3 list \<Rightarrow> binary_sensor_entity list \<Rightarrow> binary_sensor_entity list" where
  "sensor_loop ss sys [] acc = acc"
| "sensor_loop ss sys (sensor # rest) acc =
     (let acc1 = (case TRIGGERED_SENSOR_TYPES (sensor_type sensor) of
                    Some dc \<Rightarrow> acc @ [TriggeredBinarySensor ss sys sensor dc]
                  | None \<Rightarrow> acc);
          acc2 = (if sensor_type sensor \<in> set SUPPORTED_BATTERY_SENSOR_TYPES
                  then acc1 @ [BatteryBinarySensor ss sys sensor]
                  else acc1)
      in sensor_loop ss sys rest acc2)"

text \<open>The loop over \<open>system.cameras.values()\<close> (lines 72 to 75).\<close>

fun camera_sensor_loop ::
  "SimpliSafe \<Rightarrow> SystemV3 \<Rightarrow> SimpliCam list \<Rightarrow> binary_sensor_entity list \<Rightarrow> binary_sensor_entity list" where
  "camera_sensor_loop ss sys [] acc = acc"
| "camera_sensor_loop ss sys (cam # rest) acc =
     (let acc1 = acc @ [CameraMotionBinarySensor ss sys cam];
          acc2 = (if camera_type cam = DOORBELL
                  then acc1 @ [CameraDoorbellBinarySensor ss sys cam]
                  else acc1)
      in camera_sensor_loop ss sys rest acc2)"

text \<open>
  The loop over \<open>simplisafe.systems.values()\<close> (lines 54 to 75), on the list \<open>sensors\<close>
  and the log written so far.
\<close>

fun system_loop ::
  "SimpliSafe \<Rightarrow> SystemV3 list \<Rightarrow> binary_sensor_entity list \<times> log_record list
     \<Rightarrow> binary_sensor_entity list \<times> log_record list" where
  "system_loop ss [] st = st"
| "system_loop ss (sys # rest) (acc, lg) =
     (if version sys = 2
      then system_loop ss rest (acc, lg @ [skipped sys])
      else system_loop ss rest
             (camera_sensor_loop ss sys (cameras sys) (sensor_loop ss sys (sensors sys) acc), lg))"

text \<open>
  \<open>async_setup_entry\<close> of \<open>binary_sensor.py\<close> (lines 46 to 77): the result is the list
  handed to \<open>async_add_entities\<close>, or the exception, and the log.
\<close>

definition binary_sensor_async_setup_entry ::
  "hass_data \<Rightarrow> string \<Rightarrow> (py_error + binary_sensor_entity list) \<times> log_record list" where
  "binary_sensor_async_setup_entry hass entry_id =
     (case data_domain hass of
        None \<Rightarrow> (Inl (KeyError ''DOMAIN''), [])
      | Some entries \<Rightarrow>
          (case entries entry_id of
             None \<Rightarrow> (Inl (KeyError entry_id), [])
           | Some simplisafe \<Rightarrow>
               (let (sensors, lg) = system_loop simplisafe (systems simplisafe) ([], [])
                in (Inr sensors, lg))))"

section \<open>The camera entity of \<open>camera.py\<close>\<close>

text \<open>
  \<open>SimpliSafeCamera\<close>: the attributes set by \<open>__init__\<close> (lines 41 to 58), with the
  references to the client, the system and the device that the base class keeps.
\<close>

record SimpliSafeCamera =
  self_simplisafe :: SimpliSafe
  self_system :: SystemV3
  self_device :: SimpliCam
  self_ffmpeg :: FFmpegManager
  last_image :: "string option"
  is_online :: bool
  is_subscribed :: bool

definition SimpliSafeCamera_init ::
  "SimpliSafe \<Rightarrow> SystemV3 \<Rightarrow> FFmpegManager \<Rightarrow> SimpliCam \<Rightarrow> SimpliSafeCamera" where
  "SimpliSafeCamera_init ss sys ff cam =
     \<lparr>self_simplisafe = ss, self_system = sys, self_device = cam, self_ffmpeg = ff, last_image = None,
      is_online = (status cam = ''online''), is_subscribed = subscription_enabled cam\<rparr>"

text \<open>The property \<open>auth_headers\<close> (lines 80 to 85).\<close>

definition auth_headers :: "SimpliSafeCamera \<Rightarrow> string" where
  "auth_headers c =
     ''-headers '' @ [CHR 0x22] @ ''Authorization: Bearer '' @ access_token (self_simplisafe c)
       @ [CHR 0x22]"

text \<open>
  The property \<open>_video_url\<close> (lines 72 to 78). It returns a formatted string, never
  \<open>None\<close>; the result is an option because its two callers test it against \<open>None\<close>.
\<close>

definition SimpliSafeCamera_video_url :: "SimpliSafeCamera \<Rightarrow> string option" where
  "SimpliSafeCamera_video_url c =
     Some (''-re '' @ auth_headers c @ '' -i '' @ [CHR 0x22] @ video_url (self_device c)
             @ [CHR 0x22])"

text \<open>The property \<open>is_shutter_open\<close> (lines 87 to 96).\<close>

definition is_shutter_open :: "SimpliSafeCamera \<Rightarrow> bool" where
  "is_shutter_open c =
     (if state (self_system c) = State_off then shutter_open_when_off (self_device c)
      else if state (self_system c) = State_home then shutter_open_when_home (self_device c)
      else if state (self_system c) = State_away then shutter_open_when_away (self_device c)
      else True)"

text \<open>How an awaited external call ends: with a value or with an exception.\<close>

datatype 'a outcome = Returned 'a | Raised py_error

datatype stream_call = OpenCamera string | GetReader | ProxyStream string | Close

text \<open>
  The camera entity and the part of its surroundings that it acts on: the inputs given to
  the frame-grab utility (\<open>ImageFrame.get_image\<close>), the calls made on stream objects
  (oldest first) and what \<open>LOGGER.warn\<close> received.
\<close>

record camera_world =
  camera :: SimpliSafeCamera
  get_image_calls :: "string list"
  stream_calls :: "stream_call list"
  warn_log :: "string list"

text \<open>
  \<open>async_device_image\<close> (lines 101 to 119). \<open>get_image\<close> is the frame-grab utility: what
  awaiting the shielded \<open>ffmpeg.get_image\<close> ends in for a given input (image bytes or
  \<open>None\<close>, or an exception). Constructing \<open>ImageFrame\<close> runs no process.
\<close>

definition async_device_image ::
  "(string \<Rightarrow> string option outcome) \<Rightarrow> camera_world
     \<Rightarrow> (py_error + string option) \<times> camera_world" where
  "async_device_image get_image w =
     (if \<not> is_shutter_open (camera w) then (Inr (last_image (camera w)), w)
      else
        (case SimpliSafeCamera_video_url (camera w) of
           None \<Rightarrow> (Inr None, w)
         | Some url \<Rightarrow>
             (let w1 = w\<lparr>get_image_calls := get_image_calls w @ [url]\<rparr>
              in case get_image url of
                   Raised e \<Rightarrow> (Inl e, w1)
                 | Returned img \<Rightarrow>
                     (Inr img, w1\<lparr>camera := (camera w1)\<lparr>last_image := img\<rparr>\<rparr>))))"

text \<open>
  How the awaited calls of one stream request end: \<open>stream.open_camera\<close>,
  \<open>stream.get_reader\<close>, \<open>async_aiohttp_proxy_stream\<close> (normal end of the proxy loop with
  its response, or an exception, \<open>CancelledError\<close> when the client disconnects) and
  \<open>stream.close\<close>.
\<close>

record stream_env =
  open_camera :: "unit outcome"
  get_reader :: "unit outcome"
  proxy_stream :: "string outcome"
  close :: "unit outcome"

text \<open>
  The \<open>try\<close> block of \<open>handle_async_mjpeg_stream\<close> (lines 134 to 140): its result, and
  the calls it made.
\<close>

definition stream_body ::
  "stream_env \<Rightarrow> string \<Rightarrow> camera_world \<Rightarrow> (py_error + string option) \<times> camera_world" where
  "stream_body env request w =
     (let w1 = w\<lparr>stream_calls := stream_calls w @ [GetReader]\<rparr>
      in case get_reader env of
           Raised e \<Rightarrow> (Inl e, w1)
         | Returned reader \<Rightarrow>
             (let w2 = w1\<lparr>stream_calls := stream_calls w1 @ [ProxyStream request]\<rparr>
              in case proxy_stream env of
                   Raised e \<Rightarrow> (Inl e, w2)
                 | Returned response \<Rightarrow> (Inr (Some response), w2)))"

text \<open>
  \<open>handle_async_mjpeg_stream\<close> (lines 121 to 142). \<open>open_camera\<close> is awaited before the
  \<open>try\<close> statement is entered; the \<open>finally\<close> clause awaits \<open>stream.close()\<close> however
  the block ended, and an exception of \<open>close\<close> replaces the block's outcome.
\<close>

definition handle_async_mjpeg_stream ::
  "stream_env \<Rightarrow> string \<Rightarrow> camera_world \<Rightarrow> (py_error + string option) \<times> camera_world" where
  "handle_async_mjpeg_stream env request w =
     (case SimpliSafeCamera_video_url (camera w) of
        None \<Rightarrow> (Inr None, w)
      | Some url \<Rightarrow>
          (let w1 = w\<lparr>warn_log := warn_log w @ [url]\<rparr>;
               w2 = w1\<lparr>stream_calls := stream_calls w1 @ [OpenCamera url]\<rparr>
           in case open_camera env of
                Raised e \<Rightarrow> (Inl e, w2)
              | Returned u \<Rightarrow>
                  (let (r, w3) = stream_body env request w2;
                       w4 = w3\<lparr>stream_calls := stream_calls w3 @ [Close]\<rparr>
                   in case close env of
                        Raised e \<Rightarrow> (Inl e, w4)
                      | Returned u' \<Rightarrow> (r, w4))))"

text \<open>How often a stream was closed, by the calls recorded.\<close>

definition closes :: "stream_call list \<Rightarrow> nat" where
  "closes calls = length (filter (\<lambda>c. c = Close) calls)"

section \<open>Entity setup in \<open>camera.py\<close>\<close>

text \<open>
  The loop over \<open>system.cameras.values()\<close> (lines 31 to 32); \<open>hass.data[DATA_FFMPEG]\<close> is
  subscripted for each camera.
\<close>

fun camera_loop ::
  "hass_data \<Rightarrow> SimpliSafe \<Rightarrow> SystemV3 \<Rightarrow> SimpliCam list \<Rightarrow> SimpliSafeCamera list
     \<Rightarrow> py_error + SimpliSafeCamera list" where
  "camera_loop hass ss sys [] acc = Inr acc"
| "camera_loop hass ss sys (cam # rest) acc =
     (case data_ffmpeg hass of
        None \<Rightarrow> Inl (KeyError ''DATA_FFMPEG'')
      | Some ff \<Rightarrow> camera_loop hass ss sys rest (acc @ [SimpliSafeCamera_init ss sys ff cam]))"

text \<open>The loop over \<open>simplisafe.systems.values()\<close> (lines 26 to 32).\<close>

fun camera_system_loop ::
  "hass_data \<Rightarrow> SimpliSafe \<Rightarrow> SystemV3 list \<Rightarrow> SimpliSafeCamera list \<times> log_record list
     \<Rightarrow> (py_error + SimpliSafeCamera list) \<times> log_record list" where
  "camera_system_loop hass ss [] (acc, lg) = (Inr acc, lg)"
| "camera_system_loop hass ss (sys # rest) (acc, lg) =
     (if version sys = 2
      then camera_system_loop hass ss rest (acc, lg @ [skipped sys])
      else
        (case camera_loop hass ss sys (cameras sys) acc of
           Inl e \<Rightarrow> (Inl e, lg)
         | Inr acc' \<Rightarrow> camera_system_loop hass ss rest (acc', lg)))"

text \<open>\<open>async_setup_entry\<close> of \<open>camera.py\<close> (lines 20 to 35).\<close>

definition camera_async_setup_entry ::
  "hass_data \<Rightarrow> string \<Rightarrow> (py_error + SimpliSafeCamera list) \<times> log_record list" where
  "camera_async_setup_entry hass entry_id =
     (case data_domain hass of
        None \<Rightarrow> (Inl (KeyError ''DOMAIN''), [])
      | Some entries \<Rightarrow>
          (case entries entry_id of
             None \<Rightarrow> (Inl (KeyError entry_id), [])
           | Some simplisafe \<Rightarrow> camera_system_loop hass simplisafe (systems simplisafe) ([], [])))"

section \<open>What the setup loops build, system by system\<close>

text \<open>The entities that one pass of the sensor loop adds for one sensor.\<close>

definition sensor_entities ::
  "SimpliSafe \<Rightarrow> SystemV3 \<Rightarrow> SensorV3 \<Rightarrow> binary_sensor_entity list" where
  "sensor_entities ss sys sensor =
     (case TRIGGERED_SENSOR_TYPES (sensor_type sensor) of
        Some dc \<Rightarrow> [TriggeredBinarySensor ss sys sensor dc]
      | None \<Rightarrow> [])
     @ (if sensor_type sensor \<in> set SUPPORTED_BATTERY_SENSOR_TYPES
        then [BatteryBinarySensor ss sys sensor] else [])"

text \<open>The entities that one pass of the camera loop of \<open>binary_sensor.py\<close> adds.\<close>

definition camera_entities ::
  "SimpliSafe \<Rightarrow> SystemV3 \<Rightarrow> SimpliCam \<Rightarrow> binary_sensor_entity list" where
  "camera_entities ss sys cam =
     CameraMotionBinarySensor ss sys cam
     # (if camera_type cam = DOORBELL then [CameraDoorbellBinarySensor ss sys cam] else [])"

definition system_binary_sensors :: "SimpliSafe \<Rightarrow> SystemV3 \<Rightarrow> binary_sensor_entity list" where
  "system_binary_sensors ss sys =
     concat (map (sensor_entities ss sys) (sensors sys))
     @ concat (map (camera_entities ss sys) (cameras sys))"

definition system_cameras ::
  "SimpliSafe \<Rightarrow> FFmpegManager \<Rightarrow> SystemV3 \<Rightarrow> SimpliSafeCamera list" where
  "system_cameras ss ff sys = map (SimpliSafeCamera_init ss sys ff) (cameras sys)"

section \<open>A concrete installation\<close>

text \<open>
  A doorbell camera whose shutter is open only when the system is armed away, a system with
  that camera and one entry sensor, and a host that has both of its data entries.
\<close>

definition example_cam :: SimpliCam where
  "example_cam =
     \<lparr>camera_serial = ''c1'', camera_type = DOORBELL, shutter_open_when_off = False,
      shutter_open_when_home = False, shutter_open_when_away = True, status = ''online'',
      subscription_enabled = True, video_url = ''https://media/c1/flv''\<rparr>"

definition example_system :: "int \<Rightarrow> SystemStates \<Rightarrow> SystemV3" where
  "example_system v st =
     \<lparr>version = v, system_id = 12, state = st,
      sensors = [\<lparr>sensor_serial = ''s1'', sensor_type = DT_ENTRY, triggered = False,
                  low_battery = False\<rparr>],
      cameras = [example_cam]\<rparr>"

definition example_ffmpeg :: FFmpegManager where
  "example_ffmpeg = \<lparr>binary = ''ffmpeg'', ffmpeg_stream_content_type = ''multipart''\<rparr>"

definition example_client :: "SystemV3 list \<Rightarrow> SimpliSafe" where
  "example_client ss = \<lparr>systems = ss, access_token = ''tok''\<rparr>"

definition example_hass :: "SystemV3 list \<Rightarrow> hass_data" where
  "example_hass ss =
     \<lparr>data_domain = Some [''entry1'' \<mapsto> example_client ss],
      data_ffmpeg = Some example_ffmpeg\<rparr>"

definition example_world :: "SystemStates \<Rightarrow> camera_world" where
  "example_world st =
     \<lparr>camera = SimpliSafeCamera_init (example_client [example_system 3 st])
                 (example_system 3 st) example_ffmpeg example_cam,
      get_image_calls = [], stream_calls = [], warn_log = []\<rparr>"

definition example_env :: "unit outcome \<Rightarrow> string outcome \<Rightarrow> stream_env" where
  "example_env opened proxied =
     \<lparr>open_camera = opened, get_reader = Returned (), proxy_stream = proxied,
      close = Returned ()\<rparr>"

section \<open>Name resolution in the module as written\<close>

lemma async_call_later_unbound:
  "load_global binary_sensor_globals ''async_call_later'' = Inl (NameError ''async_call_later'')"
  by (simp add: load_global_def binary_sensor_globals_def python_builtins_def)

lemma trigger_clear_unbound:
  "load_global binary_sensor_globals ''MOTION_SENSOR_TRIGGER_CLEAR''
     = Inl (NameError ''MOTION_SENSOR_TRIGGER_CLEAR'')"
  by (simp add: load_global_def binary_sensor_globals_def python_builtins_def)

lemma hook_as_written:
  "async_update_from_websocket_event c binary_sensor_globals e w =
     (Inl (NameError ''async_call_later''),
      w\<lparr>critical_log := critical_log w @ [e], attr_is_on := True\<rparr>)"
  by (cases c)
     (simp_all add: CameraDoorbellBinarySensor_async_update_from_websocket_event_def
        CameraMotionBinarySensor_async_update_from_websocket_event_def
        async_call_later_unbound)

section \<open>What one step does to a camera sensor\<close>

lemmas sensor_defs =
  CameraDoorbellBinarySensor_async_update_from_websocket_event_def
  CameraMotionBinarySensor_async_update_from_websocket_event_def
  CameraDoorbellBinarySensor_async_update_from_rest_api_def
  CameraMotionBinarySensor_async_update_from_rest_api_def
  call_obj_def load_global_def clear_delay_def async_call_later_def
  clear_delay_listener_def async_write_ha_state_def init_world_def

lemma hook_world:
  "snd (async_update_from_websocket_event c ns e w) =
     (case scheduled_delay ns of
        None \<Rightarrow> w\<lparr>critical_log := critical_log w @ [e], attr_is_on := True\<rparr>
      | Some d \<Rightarrow> async_call_later d ClearDelayListener
                  (w\<lparr>critical_log := critical_log w @ [e], attr_is_on := True\<rparr>))"
  by (cases c)
     (auto simp: CameraDoorbellBinarySensor_async_update_from_websocket_event_def
        CameraMotionBinarySensor_async_update_from_websocket_event_def
        scheduled_delay_def clear_delay_def call_obj_def load_global_def Let_def
        split: sum.splits option.splits py_obj.splits if_splits)

lemma scheduled_delay_le: "scheduled_delay ns = Some d \<Longrightarrow> clear_delay ns = Some d"
  by (simp add: scheduled_delay_def split: if_splits)

lemma scheduled_as_written: "scheduled_delay binary_sensor_globals = None"
  by (simp add: scheduled_delay_def async_call_later_unbound)

lemma clear_delay_as_written: "clear_delay binary_sensor_globals = None"
  by (simp add: clear_delay_def binary_sensor_globals_def)

lemma scheduled_intended: "scheduled_delay (intended_globals d) = Some d"
  by (simp add: scheduled_delay_def intended_globals_def load_global_def clear_delay_def)

lemma clear_delay_intended: "clear_delay (intended_globals d) = Some d"
  by (simp add: clear_delay_def intended_globals_def)

lemma rest_world: "async_update_from_rest_api c w = w"
  by (cases c)
     (simp_all add: CameraDoorbellBinarySensor_async_update_from_rest_api_def
        CameraMotionBinarySensor_async_update_from_rest_api_def)

subsection \<open>The flag is held until the earliest pending clear\<close>

lemma step_holds_until:
  assumes "holds_until t0 T w" and "\<And>d. clear_delay ns = Some d \<Longrightarrow> T \<le> t0 + d"
  shows "holds_until t0 T (step c ns x w)"
proof (cases x)
  case (PushEvent e)
  show ?thesis
  proof (cases "scheduled_delay ns")
    case None
    with assms PushEvent show ?thesis by (simp add: hook_world holds_until_def)
  next
    case (Some d)
    then have "T \<le> t0 + d" using assms(2) scheduled_delay_le by blast
    with assms(1) PushEvent Some show ?thesis
      by (simp add: hook_world holds_until_def async_call_later_def)
  qed
next
  case RestRefresh
  with assms show ?thesis by (simp add: rest_world)
next
  case Tick
  with assms show ?thesis by (simp add: holds_until_def)
next
  case (Fire i)
  show ?thesis
  proof (cases "i < length (timers w) \<and> fst (timers w ! i) \<le> now w")
    case False
    with assms Fire show ?thesis by auto
  next
    case True
    then have "T \<le> fst (timers w ! i)" using assms(1)
      by (simp add: holds_until_def list_all_length)
    with True have late: "T \<le> now w" by simp
    have "list_all (\<lambda>p. T \<le> fst p) (take i (timers w) @ drop (Suc i) (timers w))"
      using assms(1)
      by (auto simp: holds_until_def list_all_iff dest: in_set_takeD in_set_dropD)
    with True Fire late assms(1) show ?thesis
      by (cases "snd (timers w ! i)")
         (simp add: holds_until_def clear_delay_listener_def async_write_ha_state_def)
  qed
qed

lemma run_holds_until:
  assumes "holds_until t0 T w" and "\<And>d. clear_delay ns = Some d \<Longrightarrow> T \<le> t0 + d"
  shows "holds_until t0 T (run c ns xs w)"
  using assms(1)
proof (induction xs arbitrary: w)
  case Nil
  then show ?case by simp
next
  case (Cons x xs)
  then show ?case using step_holds_until [OF _ assms(2)] by simp
qed

lemma event_holds_until:
  assumes "timers w = []" and "\<And>d. clear_delay ns = Some d \<Longrightarrow> T \<le> now w + d"
  shows "holds_until (now w) T (step c ns (PushEvent e) w)"
proof (cases "scheduled_delay ns")
  case None
  with assms(1) show ?thesis by (simp add: hook_world holds_until_def)
next
  case (Some d)
  then have "T \<le> now w + d" using assms(2) scheduled_delay_le by blast
  with assms(1) Some show ?thesis
    by (simp add: hook_world holds_until_def async_call_later_def)
qed

subsection \<open>The module as written schedules nothing\<close>

lemma step_as_written_no_timers:
  "timers w = [] \<Longrightarrow> timers (step c binary_sensor_globals x w) = []"
  by (cases x) (simp_all add: hook_world scheduled_as_written rest_world)

lemma run_as_written_no_timers:
  "timers w = [] \<Longrightarrow> timers (run c binary_sensor_globals xs w) = []"
  by (induction xs arbitrary: w) (simp_all add: step_as_written_no_timers)

lemma run_as_written_stays_on:
  assumes "timers w = []" and "attr_is_on w"
  shows "attr_is_on (run c binary_sensor_globals xs w)"
proof -
  let ?w' = "run c binary_sensor_globals xs w"
  have "holds_until (now w) (Suc (now ?w')) w"
    using assms by (simp add: holds_until_def)
  then have "holds_until (now w) (Suc (now ?w')) ?w'"
    by (rule run_holds_until) (simp add: clear_delay_as_written)
  then show ?thesis by (simp add: holds_until_def)
qed

text \<open>
  C2. In the module as written, the push-event hook of either camera sensor class logs the
  event, sets the flag and then raises \<open>NameError\<close> for \<open>async_call_later\<close>; the name
  \<open>MOTION_SENSOR_TRIGGER_CLEAR\<close> is unbound as well. So an entity that starts with no
  clear pending never has one pending, whatever the host does with it, and its flag, once
  set, stays set.
\<close>

theorem hook_raises_NameError:
  "async_update_from_websocket_event c binary_sensor_globals e w =
     (Inl (NameError ''async_call_later''),
      w\<lparr>critical_log := critical_log w @ [e], attr_is_on := True\<rparr>)
   \<and> load_global binary_sensor_globals ''MOTION_SENSOR_TRIGGER_CLEAR''
       = Inl (NameError ''MOTION_SENSOR_TRIGGER_CLEAR'')
   \<and> (timers w = [] \<longrightarrow>
        timers (run c binary_sensor_globals xs w) = []
        \<and> (attr_is_on w \<longrightarrow> attr_is_on (run c binary_sensor_globals xs w)))"
  by (simp add: hook_as_written trigger_clear_unbound run_as_written_no_timers
        run_as_written_stays_on)

theorem hook_raises_NameError_witness:
  "timers (init_world 0) = []
   \<and> attr_is_on (step Motion binary_sensor_globals (PushEvent ''camera_motion_detected'')
        (init_world 0))
   \<and> timers (step Motion binary_sensor_globals (PushEvent ''camera_motion_detected'')
        (init_world 0)) = []
   \<and> attr_is_on (run Motion binary_sensor_globals [Tick, Fire 0, RestRefresh, Tick]
        (step Motion binary_sensor_globals (PushEvent ''camera_motion_detected'')
           (init_world 0)))"
  using hook_raises_NameError [of Motion "''camera_motion_detected''" "init_world 0" "[]"]
    hook_raises_NameError [of Motion "''camera_motion_detected''"
      "step Motion binary_sensor_globals (PushEvent ''camera_motion_detected'') (init_world 0)"
      "[Tick, Fire 0, RestRefresh, Tick]"]
  by (simp add: init_world_def)

text \<open>
  C3. Whatever the module's namespace binds, a push event sets the flag; and when the event
  is processed while no clear is pending, the flag is still set at every later moment that
  is less than the clear delay after the event, whatever events, REST refreshes, clock
  ticks and timer firings come in between. Where the namespace binds no delay (the module
  as written) the flag stays set at every later moment.
\<close>

theorem active_at_least_clear_delay:
  assumes "timers w = []"
  shows "attr_is_on (step c ns (PushEvent e) w)
         \<and> ((case clear_delay ns of
               Some d \<Rightarrow> now (run c ns xs (step c ns (PushEvent e) w)) < now w + d
             | None \<Rightarrow> True)
            \<longrightarrow> attr_is_on (run c ns xs (step c ns (PushEvent e) w)))"
proof
  show "attr_is_on (step c ns (PushEvent e) w)"
    by (simp add: hook_world async_call_later_def split: option.splits)
next
  let ?w1 = "step c ns (PushEvent e) w"
  let ?w' = "run c ns xs ?w1"
  show "(case clear_delay ns of Some d \<Rightarrow> now ?w' < now w + d | None \<Rightarrow> True)
          \<longrightarrow> attr_is_on ?w'"
  proof (cases "clear_delay ns")
    case None
    have "holds_until (now w) (Suc (now ?w')) ?w1"
      using assms by (rule event_holds_until) (simp add: None)
    then have "holds_until (now w) (Suc (now ?w')) ?w'"
      by (rule run_holds_until) (simp add: None)
    then show ?thesis by (simp add: holds_until_def)
  next
    case (Some d)
    have "holds_until (now w) (now w + d) ?w1"
      using assms by (rule event_holds_until) (simp add: Some)
    then have "holds_until (now w) (now w + d) ?w'"
      by (rule run_holds_until) (simp add: Some)
    then show ?thesis by (simp add: holds_until_def Some)
  qed
qed

theorem active_at_least_clear_delay_witness:
  "timers (init_world 7) = []
   \<and> attr_is_on (step Doorbell (intended_globals 3) (PushEvent ''doorbell_detected'')
        (init_world 7))
   \<and> now (run Doorbell (intended_globals 3)
            [Tick, Fire 0, PushEvent ''doorbell_detected'', Tick, Fire 0]
            (step Doorbell (intended_globals 3) (PushEvent ''doorbell_detected'')
               (init_world 7))) < 7 + 3
   \<and> attr_is_on (run Doorbell (intended_globals 3)
        [Tick, Fire 0, PushEvent ''doorbell_detected'', Tick, Fire 0]
        (step Doorbell (intended_globals 3) (PushEvent ''doorbell_detected'')
           (init_world 7)))"
  using active_at_least_clear_delay [of "init_world 7" Doorbell "intended_globals 3"
      "''doorbell_detected''" "[Tick, Fire 0, PushEvent ''doorbell_detected'', Tick, Fire 0]"]
  by (simp add: sensor_defs intended_globals_def)

text \<open>
  The bound is met: with a delay of three seconds bound, the clear of an event at time 7
  can fire at time 10 and not before, and it clears the flag.
\<close>

lemma clear_fires_at_due_time:
  "attr_is_on (run Doorbell (intended_globals 3) [Tick, Tick, Fire 0]
       (step Doorbell (intended_globals 3) (PushEvent ''doorbell_detected'') (init_world 7)))
   \<and> \<not> attr_is_on (run Doorbell (intended_globals 3) [Tick, Tick, Tick, Fire 0]
       (step Doorbell (intended_globals 3) (PushEvent ''doorbell_detected'') (init_world 7)))"
  by (simp add: sensor_defs intended_globals_def)

subsection \<open>Re-triggering\<close>

text \<open>
  C1. In the module as written, a push event that arrives while the sensor is active sets the
  flag again and then ends in \<open>NameError\<close> before anything is scheduled: after the second
  event no clear is pending, where two were to be pending.
\<close>

theorem retrigger_as_written:
  "attr_is_on (step Motion binary_sensor_globals (PushEvent ''camera_motion_detected'')
      (init_world 0))
   \<and> fst (async_update_from_websocket_event Motion binary_sensor_globals
        ''camera_motion_detected''
        (step Motion binary_sensor_globals (PushEvent ''camera_motion_detected'')
           (init_world 0)))
       = Inl (NameError ''async_call_later'')
   \<and> timers (snd (async_update_from_websocket_event Motion binary_sensor_globals
        ''camera_motion_detected''
        (step Motion binary_sensor_globals (PushEvent ''camera_motion_detected'')
           (init_world 0))))
       = []"
  by (simp add: CameraMotionBinarySensor_async_update_from_websocket_event_def
        async_call_later_unbound init_world_def)

text \<open>
  What the hook's statements do once both names are bound: the second event queues a second
  clear behind the first and cancels nothing, and the older clear, fired at its due time,
  clears the flag although the newer event is less than the delay old.
\<close>

lemma retrigger_stacks_clears:
  "timers (run c (intended_globals d) [PushEvent e1, Tick, PushEvent e2] w) =
     timers w @ [(now w + d, ClearDelayListener), (now w + 1 + d, ClearDelayListener)]"
  by (simp add: hook_world scheduled_intended async_call_later_def)

lemma older_clear_wins:
  "timers (run Motion (intended_globals 3)
      [PushEvent ''camera_motion_detected'', Tick, Tick, PushEvent ''camera_motion_detected'',
       Tick, Fire 0] (init_world 0)) = [(5, ClearDelayListener)]
   \<and> now (run Motion (intended_globals 3)
      [PushEvent ''camera_motion_detected'', Tick, Tick, PushEvent ''camera_motion_detected'',
       Tick, Fire 0] (init_world 0)) = 3
   \<and> \<not> attr_is_on (run Motion (intended_globals 3)
      [PushEvent ''camera_motion_detected'', Tick, Tick, PushEvent ''camera_motion_detected'',
       Tick, Fire 0] (init_world 0))"
  by (simp add: sensor_defs intended_globals_def)

subsection \<open>State-change notifications\<close>

text \<open>
  The hook itself writes no state, whatever the namespace binds; the clear callback clears
  the flag and publishes the cleared state.
\<close>

lemma hook_writes_no_state:
  "written_states (snd (async_update_from_websocket_event c ns e w)) = written_states w"
  by (simp add: hook_world async_call_later_def split: option.splits)

lemma clear_callback_publishes:
  "clear_delay_listener w
     = w\<lparr>attr_is_on := False, written_states := written_states w @ [False]\<rparr>"
  by (simp add: clear_delay_listener_def async_write_ha_state_def)

text \<open>
  Once both names are bound the hook returns, and its caller publishes the new state: an
  event, first or repeated, ends with the flag set, one more clear queued and the set state
  written to the host.
\<close>

lemma push_event_published_with_names_bound:
  "handle_websocket_update c (intended_globals d) e w =
     (Inr (),
      w\<lparr>critical_log := critical_log w @ [e], attr_is_on := True,
         timers := timers w @ [(now w + d, ClearDelayListener)],
         written_states := written_states w @ [True]\<rparr>)"
  by (cases c)
     (simp_all add: handle_websocket_update_def sensor_defs intended_globals_def)

text \<open>
  C9. In the module as written the notification of an event never happens: the hook sets
  the flag and raises \<open>NameError\<close>, the exception leaves the caller before its write, and
  nothing is written to the host, on the first event of an inactive sensor as on a
  re-trigger.
\<close>

theorem push_event_not_published:
  "handle_websocket_update c binary_sensor_globals e w =
     (Inl (NameError ''async_call_later''),
      w\<lparr>critical_log := critical_log w @ [e], attr_is_on := True\<rparr>)
   \<and> written_states (snd (handle_websocket_update c binary_sensor_globals e w))
       = written_states w
   \<and> \<not> attr_is_on (init_world 0)
   \<and> attr_is_on (snd (handle_websocket_update Motion binary_sensor_globals
        ''camera_motion_detected'' (init_world 0)))
   \<and> written_states (snd (handle_websocket_update Motion binary_sensor_globals
        ''camera_motion_detected'' (init_world 0))) = []"
proof -
  have raised: "handle_websocket_update c' binary_sensor_globals e' w' =
      (Inl (NameError ''async_call_later''),
       w'\<lparr>critical_log := critical_log w' @ [e'], attr_is_on := True\<rparr>)" for c' e' w'
    unfolding handle_websocket_update_def by (simp only: hook_as_written prod.case sum.case)
  show ?thesis
    unfolding raised by (simp add: init_world_def)
qed

subsection \<open>What clears the flag\<close>

text \<open>
  C10. If a step takes the flag of a camera sensor from set to cleared, the step is the
  firing of a pending delayed call that is due, and that call is the clear callback; the
  REST hook of either class leaves the entity as it is.
\<close>

theorem cleared_only_by_clear_callback:
  "(attr_is_on w \<and> \<not> attr_is_on (step c ns x w) \<longrightarrow>
      (\<exists>i. x = Fire i \<and> i < length (timers w) \<and> fst (timers w ! i) \<le> now w
           \<and> snd (timers w ! i) = ClearDelayListener))
   \<and> async_update_from_rest_api c w = w"
proof (cases x)
  case (PushEvent e)
  then show ?thesis
    by (simp add: rest_world hook_world async_call_later_def split: option.splits)
next
  case RestRefresh
  then show ?thesis by (simp add: rest_world)
next
  case Tick
  then show ?thesis by (simp add: rest_world)
next
  case (Fire i)
  then show ?thesis
    by (cases "snd (timers w ! i)") (auto simp: rest_world)
qed

theorem cleared_only_by_clear_callback_witness:
  "attr_is_on (step Doorbell (intended_globals 0) (PushEvent ''doorbell_detected'')
      (init_world 0))
   \<and> \<not> attr_is_on (step Doorbell (intended_globals 0) (Fire 0)
         (step Doorbell (intended_globals 0) (PushEvent ''doorbell_detected'')
            (init_world 0)))
   \<and> (\<exists>i. Fire 0 = Fire i
         \<and> i < length (timers (step Doorbell (intended_globals 0)
                 (PushEvent ''doorbell_detected'') (init_world 0))))"
  using cleared_only_by_clear_callback [of
      "step Doorbell (intended_globals 0) (PushEvent ''doorbell_detected'') (init_world 0)"
      Doorbell "intended_globals 0" "Fire 0"]
  by (simp add: sensor_defs intended_globals_def)

section \<open>The camera entity\<close>

lemmas example_defs = example_cam_def example_system_def example_ffmpeg_def
  example_client_def example_world_def SimpliSafeCamera_init_def

lemma video_url_total: "\<exists>url. SimpliSafeCamera_video_url c = Some url"
  by (simp add: SimpliSafeCamera_video_url_def)

text \<open>
  C5. \<open>is_shutter_open\<close> is the device's flag for the arm state when the system is off,
  home or away, and true for every other arm state.
\<close>

theorem shutter_follows_arm_state:
  "(state (self_system c) = State_off \<longrightarrow>
      is_shutter_open c = shutter_open_when_off (self_device c))
   \<and> (state (self_system c) = State_home \<longrightarrow>
      is_shutter_open c = shutter_open_when_home (self_device c))
   \<and> (state (self_system c) = State_away \<longrightarrow>
      is_shutter_open c = shutter_open_when_away (self_device c))
   \<and> (state (self_system c) \<notin> {State_off, State_home, State_away} \<longrightarrow> is_shutter_open c)"
  by (simp add: is_shutter_open_def)

theorem shutter_follows_arm_state_witness:
  "state (self_system (camera (example_world State_off))) = State_off
   \<and> is_shutter_open (camera (example_world State_off)) = False
   \<and> state (self_system (camera (example_world State_away))) = State_away
   \<and> is_shutter_open (camera (example_world State_away)) = True
   \<and> state (self_system (camera (example_world State_home))) = State_home
   \<and> is_shutter_open (camera (example_world State_home)) = False
   \<and> state (self_system (camera (example_world (State_other ''alarm''))))
       \<notin> {State_off, State_home, State_away}
   \<and> is_shutter_open (camera (example_world (State_other ''alarm'')))"
  using shutter_follows_arm_state [of "camera (example_world State_off)"]
    shutter_follows_arm_state [of "camera (example_world State_away)"]
    shutter_follows_arm_state [of "camera (example_world State_home)"]
    shutter_follows_arm_state [of "camera (example_world (State_other ''alarm''))"]
  by (simp add: example_defs)

text \<open>
  C4. With the shutter closed, \<open>async_device_image\<close> returns the cached image, \<open>None\<close>
  when nothing is cached, and leaves everything as it was: the cache is unchanged and the
  frame-grab utility has not been given an input.
\<close>

theorem closed_shutter_returns_cache:
  "\<not> is_shutter_open (camera w) \<Longrightarrow>
     async_device_image get_image w = (Inr (last_image (camera w)), w)"
  by (simp add: async_device_image_def)

theorem closed_shutter_returns_cache_witness:
  "\<not> is_shutter_open (camera (example_world State_off))
   \<and> last_image (camera (example_world State_off)) = None
   \<and> async_device_image (\<lambda>u. Returned (Some ''jpeg'')) (example_world State_off)
       = (Inr None, example_world State_off)
   \<and> get_image_calls (snd (async_device_image (\<lambda>u. Returned (Some ''jpeg''))
        (example_world State_off))) = []"
  using closed_shutter_returns_cache
    [of "example_world State_off" "\<lambda>u. Returned (Some ''jpeg'')"]
  by (simp add: example_defs is_shutter_open_def)

text \<open>
  C6. With the shutter open and a frame grab that returns, \<open>async_device_image\<close> returns
  what the frame grab returned and the cache holds exactly that value afterwards; the
  utility was called once, on the camera's video URL.
\<close>

theorem open_shutter_fetches_and_caches:
  assumes "is_shutter_open (camera w)"
    and "SimpliSafeCamera_video_url (camera w) = Some url"
    and "get_image url = Returned img"
  shows "fst (async_device_image get_image w) = Inr img
         \<and> last_image (camera (snd (async_device_image get_image w))) = img
         \<and> snd (async_device_image get_image w)
             = w\<lparr>get_image_calls := get_image_calls w @ [url],
                  camera := (camera w)\<lparr>last_image := img\<rparr>\<rparr>"
  using assms by (simp add: async_device_image_def)

theorem open_shutter_fetches_and_caches_witness:
  "is_shutter_open (camera (example_world State_away))
   \<and> fst (async_device_image (\<lambda>u. Returned (Some ''jpeg'')) (example_world State_away))
       = Inr (Some ''jpeg'')
   \<and> last_image (camera (snd (async_device_image (\<lambda>u. Returned (Some ''jpeg''))
        (example_world State_away)))) = Some ''jpeg''"
  using open_shutter_fetches_and_caches [of "example_world State_away"
      "the (SimpliSafeCamera_video_url (camera (example_world State_away)))"
      "\<lambda>u. Returned (Some ''jpeg'')" "Some ''jpeg''"]
  by (simp add: example_defs is_shutter_open_def SimpliSafeCamera_video_url_def)

subsection \<open>The stream request\<close>

lemma stream_body_calls:
  "closes (stream_calls (snd (stream_body env request w))) = closes (stream_calls w)"
  by (simp add: stream_body_def closes_def Let_def split: outcome.splits)

text \<open>
  C7, as stated, fails: when the awaited \<open>open_camera\<close> ends in an exception (here the
  cancellation of a client that disconnects while the stream is being opened), the
  \<open>try\<close> statement is never entered and the invocation ends without a call of
  \<open>close\<close>.
\<close>

theorem stream_not_closed_when_open_fails:
  "fst (handle_async_mjpeg_stream
          (example_env (Raised CancelledError) (Returned ''response''))
          ''GET /stream'' (example_world State_away)) = Inl CancelledError
   \<and> closes (stream_calls (snd (handle_async_mjpeg_stream
        (example_env (Raised CancelledError) (Returned ''response'')) ''GET /stream''
        (example_world State_away)))) = 0"
  by (simp add: example_env_def example_defs handle_async_mjpeg_stream_def
        SimpliSafeCamera_video_url_def closes_def)

text \<open>
  C7, amended. In every invocation in which \<open>open_camera\<close> returns, \<open>close\<close> is called
  exactly once, and it is the last call made on the stream, however \<open>get_reader\<close>, the
  proxy loop and \<open>close\<close> itself end (normally, by cancellation or by an exception). In
  every invocation in which \<open>open_camera\<close> ends in an exception, that exception is the
  outcome, \<open>close\<close> is not called, and \<open>open_camera\<close> is the only call made on the
  stream.
\<close>

theorem stream_closed_once_after_open:
  "(open_camera env = Returned u \<longrightarrow>
      closes (stream_calls (snd (handle_async_mjpeg_stream env request w)))
        = closes (stream_calls w) + 1
      \<and> last (stream_calls (snd (handle_async_mjpeg_stream env request w))) = Close)
   \<and> (open_camera env = Raised e \<longrightarrow>
      fst (handle_async_mjpeg_stream env request w) = Inl e
      \<and> closes (stream_calls (snd (handle_async_mjpeg_stream env request w)))
          = closes (stream_calls w)
      \<and> stream_calls (snd (handle_async_mjpeg_stream env request w))
          = stream_calls w @ [OpenCamera (the (SimpliSafeCamera_video_url (camera w)))])"
proof -
  obtain url where url: "SimpliSafeCamera_video_url (camera w) = Some url"
    using video_url_total by blast
  let ?w2 = "w\<lparr>warn_log := warn_log w @ [url],
                stream_calls := stream_calls w @ [OpenCamera url]\<rparr>"
  obtain r w3 where body: "stream_body env request ?w2 = (r, w3)"
    by (cases "stream_body env request ?w2") blast
  have "closes (stream_calls w3) = closes (stream_calls ?w2)"
    using stream_body_calls [of env request ?w2] body by simp
  then have same: "closes (stream_calls w3) = closes (stream_calls w)"
    by (simp add: closes_def)
  have opened: "open_camera env = Returned u \<longrightarrow>
      closes (stream_calls (snd (handle_async_mjpeg_stream env request w)))
        = closes (stream_calls w) + 1
      \<and> last (stream_calls (snd (handle_async_mjpeg_stream env request w))) = Close"
    using url body same
    by (simp add: handle_async_mjpeg_stream_def closes_def Let_def split: outcome.splits)
  have failed: "open_camera env = Raised e \<longrightarrow>
      fst (handle_async_mjpeg_stream env request w) = Inl e
      \<and> closes (stream_calls (snd (handle_async_mjpeg_stream env request w)))
          = closes (stream_calls w)
      \<and> stream_calls (snd (handle_async_mjpeg_stream env request w))
          = stream_calls w @ [OpenCamera (the (SimpliSafeCamera_video_url (camera w)))]"
    using url by (simp add: handle_async_mjpeg_stream_def closes_def Let_def)
  from opened failed show ?thesis by blast
qed

theorem stream_closed_once_after_open_witness:
  "open_camera (example_env (Returned ()) (Raised CancelledError)) = Returned ()
   \<and> fst (handle_async_mjpeg_stream (example_env (Returned ()) (Raised CancelledError))
        ''GET /stream'' (example_world State_away)) = Inl CancelledError
   \<and> closes (stream_calls (snd (handle_async_mjpeg_stream
        (example_env (Returned ()) (Raised CancelledError)) ''GET /stream''
        (example_world State_away)))) = 1
   \<and> open_camera (example_env (Raised (ExternalError ''spawn'')) (Returned ''response''))
       = Raised (ExternalError ''spawn'')
   \<and> fst (handle_async_mjpeg_stream
        (example_env (Raised (ExternalError ''spawn'')) (Returned ''response''))
        ''GET /stream'' (example_world State_away)) = Inl (ExternalError ''spawn'')
   \<and> length (stream_calls (snd (handle_async_mjpeg_stream
        (example_env (Raised (ExternalError ''spawn'')) (Returned ''response''))
        ''GET /stream'' (example_world State_away)))) = 1
   \<and> closes (stream_calls (snd (handle_async_mjpeg_stream
        (example_env (Raised (ExternalError ''spawn'')) (Returned ''response''))
        ''GET /stream'' (example_world State_away)))) = 0"
  using stream_closed_once_after_open
    [of "example_env (Returned ()) (Raised CancelledError)" "()" "''GET /stream''"
      "example_world State_away"]
    stream_closed_once_after_open
    [of "example_env (Raised (ExternalError ''spawn'')) (Returned ''response'')" _
      "''GET /stream''" "example_world State_away" "ExternalError ''spawn''"]
  by (simp add: example_env_def example_defs handle_async_mjpeg_stream_def stream_body_def
        SimpliSafeCamera_video_url_def closes_def)

section \<open>Entity setup\<close>

lemma sensor_loop_eq:
  "sensor_loop ss sys xs acc = acc @ concat (map (sensor_entities ss sys) xs)"
  by (induction xs arbitrary: acc)
     (simp_all add: sensor_entities_def Let_def split: option.splits)

lemma camera_sensor_loop_eq:
  "camera_sensor_loop ss sys xs acc = acc @ concat (map (camera_entities ss sys) xs)"
  by (induction xs arbitrary: acc) (simp_all add: camera_entities_def Let_def)

lemma system_loop_eq:
  "system_loop ss xs (acc, lg) =
     (acc @ concat (map (system_binary_sensors ss) (filter (\<lambda>s. version s \<noteq> 2) xs)),
      lg @ map skipped (filter (\<lambda>s. version s = 2) xs))"
  by (induction xs arbitrary: acc lg)
     (simp_all add: sensor_loop_eq camera_sensor_loop_eq system_binary_sensors_def)

lemma camera_loop_eq:
  "data_ffmpeg hass = Some ff \<Longrightarrow>
     camera_loop hass ss sys xs acc = Inr (acc @ map (SimpliSafeCamera_init ss sys ff) xs)"
  by (induction xs arbitrary: acc) simp_all

lemma camera_system_loop_eq:
  "data_ffmpeg hass = Some ff \<Longrightarrow>
     camera_system_loop hass ss xs (acc, lg) =
       (Inr (acc @ concat (map (system_cameras ss ff) (filter (\<lambda>s. version s \<noteq> 2) xs))),
        lg @ map skipped (filter (\<lambda>s. version s = 2) xs))"
  by (induction xs arbitrary: acc lg) (simp_all add: camera_loop_eq system_cameras_def)

lemma system_binary_sensors_system:
  "e \<in> set (system_binary_sensors ss sys) \<Longrightarrow> entity_system e = sys"
  by (auto simp: system_binary_sensors_def sensor_entities_def camera_entities_def
        split: option.splits if_splits)

lemma system_cameras_system:
  "c \<in> set (system_cameras ss ff sys) \<Longrightarrow> self_system c = sys"
  by (auto simp: system_cameras_def SimpliSafeCamera_init_def)

text \<open>
  C8. When \<open>hass.data\<close> has the client of the config entry and the FFmpeg manager, both
  setup functions return normally; the entities they hand to \<open>async_add_entities\<close> are those
  of the systems whose version is not 2, in order, so that no entity belongs to a system of
  version 2; and each log holds one record for every system of version 2, in order, and
  nothing else.
\<close>

theorem legacy_systems_skipped:
  assumes "data_domain hass = Some entries"
    and "entries entry_id = Some client"
    and "data_ffmpeg hass = Some ff"
  shows "binary_sensor_async_setup_entry hass entry_id =
           (Inr (concat (map (system_binary_sensors client)
                   (filter (\<lambda>s. version s \<noteq> 2) (systems client)))),
            map skipped (filter (\<lambda>s. version s = 2) (systems client)))
         \<and> camera_async_setup_entry hass entry_id =
           (Inr (concat (map (system_cameras client ff)
                   (filter (\<lambda>s. version s \<noteq> 2) (systems client)))),
            map skipped (filter (\<lambda>s. version s = 2) (systems client)))
         \<and> (\<forall>e \<in> set (concat (map (system_binary_sensors client)
                   (filter (\<lambda>s. version s \<noteq> 2) (systems client)))).
               version (entity_system e) \<noteq> 2)
         \<and> (\<forall>c \<in> set (concat (map (system_cameras client ff)
                   (filter (\<lambda>s. version s \<noteq> 2) (systems client)))).
               version (self_system c) \<noteq> 2)"
proof -
  have sensors: "binary_sensor_async_setup_entry hass entry_id =
           (Inr (concat (map (system_binary_sensors client)
                   (filter (\<lambda>s. version s \<noteq> 2) (systems client)))),
            map skipped (filter (\<lambda>s. version s = 2) (systems client)))"
    using assms by (simp add: binary_sensor_async_setup_entry_def system_loop_eq)
  have cams: "camera_async_setup_entry hass entry_id =
           (Inr (concat (map (system_cameras client ff)
                   (filter (\<lambda>s. version s \<noteq> 2) (systems client)))),
            map skipped (filter (\<lambda>s. version s = 2) (systems client)))"
    using assms by (simp add: camera_async_setup_entry_def camera_system_loop_eq)
  have no_v2_sensor: "\<forall>e \<in> set (concat (map (system_binary_sensors client)
                   (filter (\<lambda>s. version s \<noteq> 2) (systems client)))).
               version (entity_system e) \<noteq> 2"
    by (auto dest: system_binary_sensors_system)
  have no_v2_cam: "\<forall>c \<in> set (concat (map (system_cameras client ff)
                   (filter (\<lambda>s. version s \<noteq> 2) (systems client)))).
               version (self_system c) \<noteq> 2"
    by (auto dest: system_cameras_system)
  from sensors cams no_v2_sensor no_v2_cam show ?thesis by blast
qed

theorem legacy_systems_skipped_witness:
  "data_domain (example_hass [example_system 2 State_off, example_system 3 State_home])
     = Some [''entry1'' \<mapsto>
              example_client [example_system 2 State_off, example_system 3 State_home]]
   \<and> binary_sensor_async_setup_entry
       (example_hass [example_system 2 State_off, example_system 3 State_home]) ''entry1'' =
       (Inr (system_binary_sensors
               (example_client [example_system 2 State_off, example_system 3 State_home])
               (example_system 3 State_home)),
        [skipped (example_system 2 State_off)])
   \<and> length (system_binary_sensors
               (example_client [example_system 2 State_off, example_system 3 State_home])
               (example_system 3 State_home)) = 4
   \<and> camera_async_setup_entry
       (example_hass [example_system 2 State_off, example_system 3 State_home]) ''entry1'' =
       (Inr (system_cameras
               (example_client [example_system 2 State_off, example_system 3 State_home])
               example_ffmpeg (example_system 3 State_home)),
        [skipped (example_system 2 State_off)])"
  using legacy_systems_skipped [of
      "example_hass [example_system 2 State_off, example_system 3 State_home]"
      "[''entry1'' \<mapsto>
          example_client [example_system 2 State_off, example_system 3 State_home]]"
      "''entry1''"
      "example_client [example_system 2 State_off, example_system 3 State_home]"
      example_ffmpeg]
  by (simp add: example_hass_def example_client_def example_system_def example_cam_def
        system_binary_sensors_def sensor_entities_def camera_entities_def
        TRIGGERED_SENSOR_TYPES_def SUPPORTED_BATTERY_SENSOR_TYPES_def)

end
